theory Spec2Isabelle
  imports Main
begin

section \<open>Citation penalty escalation (citations.model.js)\<close>

text \<open>
  The module \<^verbatim>\<open>src/modules/citations/citations.model.js\<close> maps the number of
  citations a citizen already has to a penalty, and is written to file a new citation
  together with an automatic criminal record once the ladder reaches its third rung.

  Numbers: the prior-citation count is the \<^verbatim>\<open>COUNT(*)\<close> of a table, an integer far
  below \<open>2^53\<close>, so JavaScript's arithmetic on it is exact and is modelled on \<open>int\<close>.
  The literal \<^verbatim>\<open>400.00\<close> is the number 400.

  Strings: a JavaScript string is a sequence of UTF-16 code units, a \<open>string\<close> here
  is a list of 8-bit characters. The fixed Spanish texts of the source contain accented
  letters; each of them is a single code unit below 256, written here as \<open>CHR 0x..\<close>.
  The texts a caller supplies are only copied and concatenated, never inspected.
\<close>

subsection \<open>Rendering numbers inside template literals\<close>

text \<open>
  A template literal \<^verbatim>\<open>`${n}`\<close> renders an integer in decimal, with a leading minus
  sign when it is negative.
\<close>

fun decimal :: "nat \<Rightarrow> string" where
  "decimal n =
     (if n < 10 then [char_of (48 + n)]
      else decimal (n div 10) @ [char_of (48 + n mod 10)])"

declare decimal.simps [simp del]

definition toString :: "int \<Rightarrow> string" where
  "toString i = (if i < 0 then CHR ''-'' # decimal (nat (- i)) else decimal (nat i))"

subsection \<open>The penalty object\<close>

record penalty =
  citation_number :: int
  fine_amount :: int
  civic_course_hours :: int
  civic_work_days :: int
  jail_days :: int
  creates_criminal_record :: bool
  penalty_description :: string

definition a_acute :: char where "a_acute = CHR 0xE1"
definition i_acute :: char where "i_acute = CHR 0xED"
definition o_acute :: char where "o_acute = CHR 0xF3"
definition u_acute :: char where "u_acute = CHR 0xFA"
definition U_acute :: char where "U_acute = CHR 0xDA"

definition description_first :: string where
  "description_first =
     ''Primera amonestaci'' @ [o_acute] @ ''n: $400 + curso de 48 horas de normas c''
     @ [i_acute] @ ''vicas''"

definition description_second :: string where
  "description_second =
     ''Segunda amonestaci'' @ [o_acute] @ ''n: $400 + curso de 48 horas + 2 d''
     @ [i_acute] @ ''as de trabajo c'' @ [i_acute] @ ''vico''"

definition description_third :: string where
  "description_third =
     ''Tercera amonestaci'' @ [o_acute] @ ''n: 8 d'' @ [i_acute] @ ''as de c''
     @ [a_acute] @ ''rcel + registro en antecedentes penales''"

definition description_multiple :: "int \<Rightarrow> int \<Rightarrow> string" where
  "description_multiple citationNumber jailDays =
     ''M'' @ [u_acute] @ ''ltiples amonestaciones ('' @ toString citationNumber @ ''): ''
     @ toString jailDays @ '' d'' @ [i_acute] @ ''as de c'' @ [a_acute]
     @ ''rcel + registro en antecedentes penales''"

subsection \<open>calculatePenalty\<close>

text \<open>
  The function starts from a base object (fine 400, course 48 hours, nothing else) and a
  \<^verbatim>\<open>switch\<close> on the ordinal \<^verbatim>\<open>previousCitations + 1\<close> overwrites some of its
  fields. It has no guard on its argument and no \<^verbatim>\<open>throw\<close>: it returns an object
  for every number. The third case resets the course hours and the work days and leaves
  \<open>fine_amount\<close> as the base object has it; the default case resets \<open>fine_amount\<close>
  and the course hours.
\<close>

definition base_penalty :: "int \<Rightarrow> penalty" where
  "base_penalty citationNumber =
     \<lparr> citation_number = citationNumber,
       fine_amount = 400,
       civic_course_hours = 48,
       civic_work_days = 0,
       jail_days = 0,
       creates_criminal_record = False,
       penalty_description = [] \<rparr>"

definition calculatePenalty :: "int \<Rightarrow> penalty" where
  "calculatePenalty previousCitations =
     (let citationNumber = previousCitations + 1;
          penalty = base_penalty citationNumber
      in if citationNumber = 1 then
           penalty\<lparr> penalty_description := description_first \<rparr>
         else if citationNumber = 2 then
           penalty\<lparr> civic_work_days := 2,
                    penalty_description := description_second \<rparr>
         else if citationNumber = 3 then
           penalty\<lparr> civic_course_hours := 0,
                    civic_work_days := 0,
                    jail_days := 8,
                    creates_criminal_record := True,
                    penalty_description := description_third \<rparr>
         else
           penalty\<lparr> fine_amount := 0,
                    civic_course_hours := 0,
                    jail_days := 15 + (citationNumber - 3) * 5,
                    creates_criminal_record := True,
                    penalty_description :=
                      description_multiple citationNumber (15 + (citationNumber - 3) * 5) \<rparr>)"

section \<open>Storage and the connection, as createCitationDB uses them\<close>

text \<open>
  The tables are those of \<^verbatim>\<open>src/scripts/interpolice_bd (2).sql\<close>, with the columns
  the citation module reads and writes. The \<open>id\<close> columns are \<^verbatim>\<open>AUTO_INCREMENT\<close>.
  A \<^verbatim>\<open>datetime\<close> is a number of milliseconds, a \<^verbatim>\<open>date\<close> and a \<^verbatim>\<open>time\<close>
  are the texts the runtime renders.
\<close>

record citizen =
  cz_id :: int
  full_name :: string
  last_name :: "string option"

record citation =
  ct_id :: int
  ct_citizen_id :: int
  ct_date :: nat
  ct_description :: string
  ct_fine_amount :: int

record criminal_record =
  cr_id :: int
  cr_citizen_id :: int
  cr_date :: string
  cr_time :: string
  cr_location :: int
  cr_description :: string
  cr_crime_type :: string

record tables =
  citizens :: "citizen list"
  citations :: "citation list"
  criminal_records :: "criminal_record list"

text \<open>
  The state of the database as one request sees it: the committed tables, the working
  copy of the transaction open on the handle that \<^verbatim>\<open>getConnection\<close> returned (if
  one is open), how many handles were handed out and how many were given back, and the
  two auto-increment counters (which a rollback does not reset).
\<close>

record db =
  committed :: tables
  open_tx :: "tables option"
  acquired :: nat
  released :: nat
  next_citation_id :: int
  next_record_id :: int

text \<open>
  Every \<^verbatim>\<open>await\<close> on the driver is a round trip that may reject. The call sites
  are named; the environment says which of them reject, and with which message. It also
  holds the three readings of the clock that \<^verbatim>\<open>new Date()\<close> returns, and the
  writes that other requests commit while this one awaits: \<open>concurrent_writes e c\<close> are
  the writes committed after the previous answer and before the call at site \<open>c\<close> is
  served.

  A statement that rejects writes nothing; writes made after \<^verbatim>\<open>beginTransaction\<close> stay
  in a working copy until \<^verbatim>\<open>commit\<close> publishes them or \<^verbatim>\<open>rollback\<close>
  drops them; \<^verbatim>\<open>release\<close> gives a handle back.
\<close>

datatype db_call =
    ControllerCount
  | CheckCitizenExists
  | CountCitations
  | GetConnection
  | BeginTransaction
  | InsertCitation
  | InsertCriminalRecord
  | Commit
  | Rollback
  | GetCitationById

record env =
  faults :: "db_call \<Rightarrow> string option"
  now :: nat
  today :: string
  time_of_day :: string
  concurrent_writes :: "db_call \<Rightarrow> tables \<Rightarrow> tables"

text \<open>
  The errors a call can end with: the \<^verbatim>\<open>Error\<close> that \<^verbatim>\<open>createCitationDB\<close>
  throws itself, the rejection of a driver call, the \<^verbatim>\<open>TypeError\<close> of calling a
  property that is not a function (its argument is the expression called), and the
  \<^verbatim>\<open>TypeError\<close> of reading a property of \<^verbatim>\<open>null\<close> in the controller.
\<close>

datatype error =
    CitizenDoesNotExist
  | StorageFailure db_call string
  | NotAFunction string
  | NullDereference

definition message :: "error \<Rightarrow> string" where
  "message e =
     (case e of
        CitizenDoesNotExist \<Rightarrow> ''El ciudadano especificado no existe''
      | StorageFailure c m \<Rightarrow> m
      | NotAFunction f \<Rightarrow> f @ '' is not a function''
      | NullDereference \<Rightarrow> ''Cannot read properties of null'')"

definition await :: "env \<Rightarrow> db_call \<Rightarrow> 'a \<Rightarrow> error + 'a" where
  "await e c v = (case faults e c of Some m \<Rightarrow> Inl (StorageFailure c m) | None \<Rightarrow> Inr v)"

subsection \<open>Read queries\<close>

definition checkCitizenExistsDB :: "tables \<Rightarrow> int \<Rightarrow> bool" where
  "checkCitizenExistsDB t citizenId =
     (0 < length (filter (\<lambda>c. cz_id c = citizenId) (citizens t)))"

definition countCitationsByCitizenDB :: "tables \<Rightarrow> int \<Rightarrow> int" where
  "countCitationsByCitizenDB t citizenId =
     int (length (filter (\<lambda>c. ct_citizen_id c = citizenId) (citations t)))"

subsection \<open>The connection object (config/Database.js)\<close>

text \<open>
  The driver, \<^verbatim>\<open>mysql2/promise\<close>, has two kinds of objects: the connection that
  \<^verbatim>\<open>createConnection\<close> returns, with \<^verbatim>\<open>query\<close>, \<^verbatim>\<open>beginTransaction\<close>,
  \<^verbatim>\<open>commit\<close> and \<^verbatim>\<open>rollback\<close>, and the pool that \<^verbatim>\<open>createPool\<close>
  returns, which alone has \<^verbatim>\<open>getConnection\<close>. \<^verbatim>\<open>Database.js\<close> exports
  \<^verbatim>\<open>await mysql.createConnection({...})\<close>: a connection, not a pool.
\<close>

datatype driver_object = Connection | Pool

definition connection :: driver_object where
  "connection = Connection"

text \<open>
  \<^verbatim>\<open>obj.getConnection()\<close>: on a connection the property is undefined and the call
  throws at once, before any round trip. On a pool the call is a round trip, during which
  other requests may commit their writes, and it hands out a handle unless it rejects.
\<close>

definition getConnection :: "env \<Rightarrow> driver_object \<Rightarrow> db \<Rightarrow> error + db" where
  "getConnection e obj d =
     (case obj of
        Connection \<Rightarrow> Inl (NotAFunction ''connection.getConnection'')
      | Pool \<Rightarrow>
          await e GetConnection
            (d\<lparr> committed := concurrent_writes e GetConnection (committed d),
               acquired := acquired d + 1 \<rparr>))"

definition beginTransaction :: "env \<Rightarrow> db \<Rightarrow> error + db" where
  "beginTransaction e d = await e BeginTransaction (d\<lparr> open_tx := Some (committed d) \<rparr>)"

definition db_write :: "(tables \<Rightarrow> tables) \<Rightarrow> db \<Rightarrow> db" where
  "db_write f d =
     (case open_tx d of
        Some w \<Rightarrow> d\<lparr> open_tx := Some (f w) \<rparr>
      | None \<Rightarrow> d\<lparr> committed := f (committed d) \<rparr>)"

definition commit :: "env \<Rightarrow> db \<Rightarrow> error + db" where
  "commit e d =
     await e Commit
       (case open_tx d of
          Some w \<Rightarrow> d\<lparr> committed := w, open_tx := None \<rparr>
        | None \<Rightarrow> d)"

definition rollback :: "env \<Rightarrow> db \<Rightarrow> error + db" where
  "rollback e d = await e Rollback (d\<lparr> open_tx := None \<rparr>)"

definition release :: "db \<Rightarrow> db" where
  "release d = d\<lparr> released := released d + 1 \<rparr>"

subsection \<open>The two inserts\<close>

record new_citation =
  nc_citizen_id :: int
  nc_date :: nat
  nc_description :: string
  nc_fine_amount :: int

definition insert_citation :: "env \<Rightarrow> new_citation \<Rightarrow> db \<Rightarrow> error + (int \<times> db)" where
  "insert_citation e newCitation d =
     await e InsertCitation
       (next_citation_id d,
        db_write (\<lambda>t. t\<lparr> citations := citations t @
                 [\<lparr> ct_id = next_citation_id d,
                    ct_citizen_id = nc_citizen_id newCitation,
                    ct_date = nc_date newCitation,
                    ct_description = nc_description newCitation,
                    ct_fine_amount = nc_fine_amount newCitation \<rparr>] \<rparr>)
          (d\<lparr> next_citation_id := next_citation_id d + 1 \<rparr>))"

definition record_description :: "int \<Rightarrow> string \<Rightarrow> string" where
  "record_description citationNumber description =
     ''Registro autom'' @ [a_acute] @ ''tico por acumulaci'' @ [o_acute] @ ''n de ''
     @ toString citationNumber @ '' citaciones menores. '' @ [U_acute]
     @ ''ltima infracci'' @ [o_acute] @ ''n: '' @ description"

definition crime_type_accumulated :: string where
  "crime_type_accumulated = ''Acumulaci'' @ [o_acute] @ ''n de citaciones menores''"

record new_criminal_record =
  ncr_citizen_id :: int
  ncr_date :: string
  ncr_time :: string
  ncr_location :: int
  ncr_description :: string
  ncr_crime_type :: string

definition insert_criminal_record :: "env \<Rightarrow> new_criminal_record \<Rightarrow> db \<Rightarrow> error + db" where
  "insert_criminal_record e criminalRecord d =
     await e InsertCriminalRecord
       (db_write (\<lambda>t. t\<lparr> criminal_records := criminal_records t @
                 [\<lparr> cr_id = next_record_id d,
                    cr_citizen_id = ncr_citizen_id criminalRecord,
                    cr_date = ncr_date criminalRecord,
                    cr_time = ncr_time criminalRecord,
                    cr_location = ncr_location criminalRecord,
                    cr_description = ncr_description criminalRecord,
                    cr_crime_type = ncr_crime_type criminalRecord \<rparr>] \<rparr>)
          (d\<lparr> next_record_id := next_record_id d + 1 \<rparr>))"

subsection \<open>createCitationDB\<close>

text \<open>
  The argument is the request body with \<open>citizen_id\<close> set from the URL. The function
  reads its \<open>citizen_id\<close> and \<open>description\<close> only; whatever else the caller put
  into the body is the extension part of the record.
\<close>

record citation_data =
  citizen_id :: int
  description :: string

record filing_result =
  insertId :: int
  penalty :: penalty
  criminal_record_created :: bool

text \<open>The body of the \<^verbatim>\<open>try\<close> block: insert, conditional insert, commit.\<close>

definition try_block ::
  "env \<Rightarrow> 'a citation_data_scheme \<Rightarrow> penalty \<Rightarrow> new_citation \<Rightarrow> db
   \<Rightarrow> (error + filing_result) \<times> db" where
  "try_block e citationData pen newCitation d =
     (case insert_citation e newCitation d of
        Inl err \<Rightarrow> (Inl err, d)
      | Inr (resultId, d1) \<Rightarrow>
          (case (if creates_criminal_record pen then
                   insert_criminal_record e
                     \<lparr> ncr_citizen_id = citizen_id citationData,
                       ncr_date = today e,
                       ncr_time = time_of_day e,
                       ncr_location = 1,
                       ncr_description =
                         record_description (citation_number pen) (description citationData),
                       ncr_crime_type = crime_type_accumulated \<rparr> d1
                 else Inr d1) of
             Inl err \<Rightarrow> (Inl err, d1)
           | Inr d2 \<Rightarrow>
               (case commit e d2 of
                  Inl err \<Rightarrow> (Inl err, d2)
                | Inr d3 \<Rightarrow>
                    (Inr \<lparr> insertId = resultId, penalty = pen,
                          criminal_record_created = creates_criminal_record pen \<rparr>, d3))))"

text \<open>
  \<^verbatim>\<open>try { ... } catch (error) { await rollback(); throw error } finally { release() }\<close>:
  an error of the body is rethrown after the rollback, unless the rollback itself
  rejects, and then its error is the one thrown; the handle is released either way.
\<close>

definition try_catch_finally ::
  "env \<Rightarrow> 'a citation_data_scheme \<Rightarrow> penalty \<Rightarrow> new_citation \<Rightarrow> db
   \<Rightarrow> (error + filing_result) \<times> db" where
  "try_catch_finally e citationData pen newCitation d =
     (case try_block e citationData pen newCitation d of
        (Inr result, d1) \<Rightarrow> (Inr result, release d1)
      | (Inl err, d1) \<Rightarrow>
          (case rollback e d1 of
             Inl err' \<Rightarrow> (Inl err', release d1)
           | Inr d2 \<Rightarrow> (Inl err, release d2)))"

text \<open>
  The existence check, the count and the penalty come first. Then the function calls
  \<^verbatim>\<open>getConnection\<close> on the object that \<^verbatim>\<open>Database.js\<close> exports and begins
  the transaction, both before the \<^verbatim>\<open>try\<close>: an error of either leaves the function
  at once, outside \<^verbatim>\<open>catch\<close> and \<^verbatim>\<open>finally\<close>.
\<close>

definition createCitationDB ::
  "env \<Rightarrow> db \<Rightarrow> 'a citation_data_scheme \<Rightarrow> (error + filing_result) \<times> db" where
  "createCitationDB e d citationData =
     (case await e CheckCitizenExists
             (checkCitizenExistsDB (committed d) (citizen_id citationData)) of
        Inl err \<Rightarrow> (Inl err, d)
      | Inr citizenExists \<Rightarrow>
          if \<not> citizenExists then (Inl CitizenDoesNotExist, d)
          else
            (case await e CountCitations
                    (countCitationsByCitizenDB (committed d) (citizen_id citationData)) of
               Inl err \<Rightarrow> (Inl err, d)
             | Inr previousCitations \<Rightarrow>
                 (let pen = calculatePenalty previousCitations;
                      newCitation =
                        \<lparr> nc_citizen_id = citizen_id citationData,
                          nc_date = now e,
                          nc_description = description citationData,
                          nc_fine_amount = fine_amount pen \<rparr>
                  in case getConnection e connection d of
                       Inl err \<Rightarrow> (Inl err, d)
                     | Inr d1 \<Rightarrow>
                         (case beginTransaction e d1 of
                            Inl err \<Rightarrow> (Inl err, d1)
                          | Inr d2 \<Rightarrow> try_catch_finally e citationData pen newCitation d2))))"

section \<open>The controller (citations.controller.js)\<close>

text \<open>
  \<^verbatim>\<open>getCitationByIdDB\<close> joins the citation with its citizen and returns the first
  row, or \<^verbatim>\<open>null\<close>.
\<close>

record citation_view =
  v_id :: int
  v_citizen_id :: int
  v_citizen_name :: string
  v_citizen_last_name :: "string option"
  v_date :: nat
  v_description :: string
  v_fine_amount :: int

definition getCitationByIdDB :: "tables \<Rightarrow> int \<Rightarrow> citation_view option" where
  "getCitationByIdDB t citationId =
     (case concat (map (\<lambda>ct. map (\<lambda>c.
                     \<lparr> v_id = ct_id ct,
                       v_citizen_id = ct_citizen_id ct,
                       v_citizen_name = full_name c,
                       v_citizen_last_name = last_name c,
                       v_date = ct_date ct,
                       v_description = ct_description ct,
                       v_fine_amount = ct_fine_amount ct \<rparr>)
                   (filter (\<lambda>c. cz_id c = ct_citizen_id ct) (citizens t)))
                 (filter (\<lambda>ct. ct_id ct = citationId) (citations t))) of
        [] \<Rightarrow> None
      | row # _ \<Rightarrow> Some row)"

record penalty_details =
  pd_citation_number :: int
  pd_fine_amount :: int
  pd_civic_course_hours :: int
  pd_civic_work_days :: int
  pd_jail_days :: int
  pd_penalty_description :: string

record automatic_actions =
  aa_criminal_record_created :: bool
  aa_warning :: "string option"

datatype response =
    Registered nat citation_view penalty_details automatic_actions
  | Failed nat string "string option"

fun startsWith :: "string \<Rightarrow> string \<Rightarrow> bool" where
  "startsWith s [] = True"
| "startsWith [] (c # cs) = False"
| "startsWith (x # xs) (c # cs) = (x = c \<and> startsWith xs cs)"

fun includes_text :: "string \<Rightarrow> string \<Rightarrow> bool" where
  "includes_text [] sub = (sub = [])"
| "includes_text (x # xs) sub = (startsWith (x # xs) sub \<or> includes_text xs sub)"

definition error_response :: "error \<Rightarrow> response" where
  "error_response err =
     (if includes_text (message err) ''no existe'' then Failed 400 (message err) None
      else Failed 500 (''Error interno del servidor al crear la citaci'' @ [o_acute] @ ''n'')
             (Some (message err)))"

definition details_of :: "penalty \<Rightarrow> penalty_details" where
  "details_of pen =
     \<lparr> pd_citation_number = citation_number pen,
       pd_fine_amount = fine_amount pen,
       pd_civic_course_hours = civic_course_hours pen,
       pd_civic_work_days = civic_work_days pen,
       pd_jail_days = jail_days pen,
       pd_penalty_description = penalty_description pen \<rparr>"

definition warning_text :: string where
  "warning_text =
     ''ATENCI'' @ [CHR 0xD3] @ ''N: Se ha creado autom'' @ [a_acute]
     @ ''ticamente un antecedente penal por acumulaci'' @ [o_acute] @ ''n de citaciones''"

text \<open>
  The controller counts the citizen's citations itself and computes a penalty from that
  count, for the response only; then it calls \<^verbatim>\<open>createCitationDB\<close>, which counts
  again. The validation middleware has made \<open>citizenId\<close> an integer by then. Between the
  controller's count and the first query of \<^verbatim>\<open>createCitationDB\<close> other requests may
  commit their writes. What the controller logs with \<^verbatim>\<open>console.error\<close> is left out.
\<close>

definition createCitation ::
  "env \<Rightarrow> db \<Rightarrow> int \<Rightarrow> 'a citation_data_scheme \<Rightarrow> response \<times> db" where
  "createCitation e d citizenId body =
     (let citationData = body\<lparr> citizen_id := citizenId \<rparr> in
      case await e ControllerCount (countCitationsByCitizenDB (committed d) citizenId) of
        Inl err \<Rightarrow> (error_response err, d)
      | Inr previousCitations \<Rightarrow>
          (let pen = calculatePenalty previousCitations;
               d0 = d\<lparr> committed := concurrent_writes e CheckCitizenExists (committed d) \<rparr>
           in case createCitationDB e d0 citationData of
                (Inl err, d1) \<Rightarrow> (error_response err, d1)
              | (Inr result, d1) \<Rightarrow>
                  (case await e GetCitationById
                          (getCitationByIdDB (committed d1) (insertId result)) of
                     Inl err \<Rightarrow> (error_response err, d1)
                   | Inr None \<Rightarrow> (error_response NullDereference, d1)
                   | Inr (Some newCitation) \<Rightarrow>
                       (Registered (if criminal_record_created result then 202 else 201)
                          newCitation
                          (details_of pen)
                          \<lparr> aa_criminal_record_created = criminal_record_created result,
                            aa_warning =
                              (if criminal_record_created result then Some warning_text
                               else None) \<rparr>,
                        d1))))"

section \<open>Sample data\<close>

text \<open>A citizen, a database in which the citizen has \<open>k\<close> citations, a quiet environment.\<close>

definition sample_citizen :: citizen where
  "sample_citizen = \<lparr> cz_id = 7, full_name = ''Ana'', last_name = Some ''Rojas'' \<rparr>"

definition sample_citation :: "nat \<Rightarrow> citation" where
  "sample_citation i =
     \<lparr> ct_id = int i + 1, ct_citizen_id = 7, ct_date = 1000 + i,
       ct_description = ''ruido en la calle'', ct_fine_amount = 400 \<rparr>"

definition sample_db :: "nat \<Rightarrow> db" where
  "sample_db k =
     \<lparr> committed = \<lparr> citizens = [sample_citizen],
                     citations = map sample_citation [0..<k],
                     criminal_records = [] \<rparr>,
       open_tx = None, acquired = 0, released = 0,
       next_citation_id = int k + 1, next_record_id = 1 \<rparr>"

definition quiet :: env where
  "quiet = \<lparr> faults = (\<lambda>c. None), now = 2000, today = ''2025-08-27'',
             time_of_day = ''21:40:35'', concurrent_writes = (\<lambda>c t. t) \<rparr>"

definition failing_at :: "db_call \<Rightarrow> env" where
  "failing_at site = quiet\<lparr> faults := (\<lambda>c. if c = site then Some ''ECONNRESET'' else None) \<rparr>"

definition loud_music :: citation_data where
  "loud_music = \<lparr> citizen_id = 7, description = ''loud music after hours'' \<rparr>"

section \<open>Properties of the penalty ladder\<close>

lemma calculatePenalty_default:
  "previousCitations + 1 \<notin> {1, 2, 3} \<Longrightarrow>
   calculatePenalty previousCitations =
     \<lparr> citation_number = previousCitations + 1,
       fine_amount = 0,
       civic_course_hours = 0,
       civic_work_days = 0,
       jail_days = 15 + (previousCitations + 1 - 3) * 5,
       creates_criminal_record = True,
       penalty_description =
         description_multiple (previousCitations + 1) (15 + (previousCitations + 1 - 3) * 5) \<rparr>"
  by (simp add: calculatePenalty_def base_penalty_def Let_def)

lemma calculatePenalty_citation_number:
  "citation_number (calculatePenalty previousCitations) = previousCitations + 1"
  by (simp add: calculatePenalty_def base_penalty_def Let_def)

lemma creates_criminal_record_iff:
  "0 \<le> previousCitations \<Longrightarrow>
   creates_criminal_record (calculatePenalty previousCitations) \<longleftrightarrow> 3 \<le> previousCitations + 1"
  by (simp add: calculatePenalty_def base_penalty_def Let_def)

text \<open>
  C7. \<^verbatim>\<open>calculatePenalty(0)\<close> is the first rung: ordinal 1, fine 400, course 48 hours,
  no civic work, no jail, no criminal record; \<^verbatim>\<open>calculatePenalty(1)\<close> is the second:
  ordinal 2, fine 400, course 48 hours, 2 days of civic work, no jail, no criminal record.
\<close>

theorem calculatePenalty_first_and_second:
  "calculatePenalty 0 =
     \<lparr> citation_number = 1, fine_amount = 400, civic_course_hours = 48,
       civic_work_days = 0, jail_days = 0, creates_criminal_record = False,
       penalty_description = description_first \<rparr>
   \<and> calculatePenalty 1 =
     \<lparr> citation_number = 2, fine_amount = 400, civic_course_hours = 48,
       civic_work_days = 2, jail_days = 0, creates_criminal_record = False,
       penalty_description = description_second \<rparr>"
  by (simp add: calculatePenalty_def base_penalty_def Let_def)

text \<open>
  C1. At two prior citations the function returns ordinal 3, no course, no civic work,
  8 days of jail and the criminal-record flag, and the fine of the base object, 400:
  the third case never assigns \<open>fine_amount\<close>, although the text it returns and the
  header of the module list jail and the criminal record only, and the default case
  does set the fine to 0.
\<close>

theorem calculatePenalty_third_keeps_base_fine:
  "calculatePenalty 2 =
     \<lparr> citation_number = 3, fine_amount = 400, civic_course_hours = 0,
       civic_work_days = 0, jail_days = 8, creates_criminal_record = True,
       penalty_description = description_third \<rparr>
   \<and> fine_amount (calculatePenalty 2) \<noteq> 0"
  by (simp add: calculatePenalty_def base_penalty_def Let_def)

text \<open>
  C6. For every ordinal \<open>n > 3\<close>, that is \<open>n - 1\<close> prior citations, the outcome has
  fine 0, no course, no civic work, \<open>15 + 5 * (n - 3)\<close> days of jail and the
  criminal-record flag; \<^verbatim>\<open>calculatePenalty(5)\<close> has ordinal 6 and 30 days of jail.
\<close>

theorem calculatePenalty_beyond_third:
  "(\<forall>n > 3.
      citation_number (calculatePenalty (n - 1)) = n
    \<and> fine_amount (calculatePenalty (n - 1)) = 0
    \<and> civic_course_hours (calculatePenalty (n - 1)) = 0
    \<and> civic_work_days (calculatePenalty (n - 1)) = 0
    \<and> jail_days (calculatePenalty (n - 1)) = 15 + 5 * (n - 3)
    \<and> creates_criminal_record (calculatePenalty (n - 1)))
   \<and> citation_number (calculatePenalty 5) = 6
   \<and> jail_days (calculatePenalty 5) = 30
   \<and> creates_criminal_record (calculatePenalty 5)"
  by (simp add: calculatePenalty_def base_penalty_def Let_def)

theorem calculatePenalty_beyond_third_witness:
  "(3::int) < 7
   \<and> citation_number (calculatePenalty (7 - 1)) = 7
   \<and> fine_amount (calculatePenalty (7 - 1)) = 0
   \<and> civic_course_hours (calculatePenalty (7 - 1)) = 0
   \<and> civic_work_days (calculatePenalty (7 - 1)) = 0
   \<and> jail_days (calculatePenalty (7 - 1)) = 35
   \<and> creates_criminal_record (calculatePenalty (7 - 1))"
  using calculatePenalty_beyond_third [THEN conjunct1, THEN spec, of 7] by simp

text \<open>
  C8. From the third citation on, each further citation carries strictly more jail: for
  every \<open>n \<ge> 2\<close>, the jail days at ordinal \<open>n + 2\<close> (after \<open>n + 1\<close> prior
  citations) exceed those at ordinal \<open>n + 1\<close> (after \<open>n\<close> prior citations).
\<close>

theorem jail_days_strictly_increasing:
  "2 \<le> n \<Longrightarrow> jail_days (calculatePenalty n) < jail_days (calculatePenalty (n + 1))"
  by (simp add: calculatePenalty_def base_penalty_def Let_def)

theorem jail_days_strictly_increasing_witness:
  "(2::int) \<le> 2 \<and> jail_days (calculatePenalty 2) = 8 \<and> jail_days (calculatePenalty (2 + 1)) = 20
   \<and> jail_days (calculatePenalty 2) < jail_days (calculatePenalty (2 + 1))"
proof -
  have h: "(2::int) \<le> 2" by simp
  have v: "jail_days (calculatePenalty 2) = 8 \<and> jail_days (calculatePenalty (2 + 1)) = 20"
    by (simp add: calculatePenalty_def base_penalty_def Let_def)
  show ?thesis using h v jail_days_strictly_increasing [OF h] by simp
qed

text \<open>
  C5. The function does not reject a negative count. Every negative count falls into
  the default case of the \<^verbatim>\<open>switch\<close> and comes back as an ordinary outcome: ordinal
  \<open>p + 1\<close>, fine 0, no course, no civic work, \<open>15 + 5 * (p + 1 - 3)\<close> days of jail (a
  number that is zero or negative) and the criminal-record flag set.
\<close>

theorem calculatePenalty_negative_returns:
  "p < 0 \<Longrightarrow>
   calculatePenalty p =
     \<lparr> citation_number = p + 1, fine_amount = 0, civic_course_hours = 0,
       civic_work_days = 0, jail_days = 15 + 5 * (p + 1 - 3),
       creates_criminal_record = True,
       penalty_description = description_multiple (p + 1) (15 + 5 * (p + 1 - 3)) \<rparr>
   \<and> jail_days (calculatePenalty p) \<le> 0"
  using calculatePenalty_default [of p] by (simp add: mult.commute)

theorem calculatePenalty_negative_returns_witness:
  "(-2::int) < 0
   \<and> calculatePenalty (-2) =
     \<lparr> citation_number = -1, fine_amount = 0, civic_course_hours = 0,
       civic_work_days = 0, jail_days = -5,
       creates_criminal_record = True,
       penalty_description = description_multiple (-1) (-5) \<rparr>"
proof -
  have h: "(-2::int) < 0" by simp
  show ?thesis using h calculatePenalty_negative_returns [OF h] by simp
qed

theorem calculatePenalty_negative_counterexample:
  "calculatePenalty (-1) =
     \<lparr> citation_number = 0, fine_amount = 0, civic_course_hours = 0,
       civic_work_days = 0, jail_days = 0, creates_criminal_record = True,
       penalty_description = description_multiple 0 0 \<rparr>"
  by (simp add: calculatePenalty_def base_penalty_def Let_def)

section \<open>Properties of filing a citation\<close>

subsection \<open>The call of getConnection\<close>

text \<open>
  On the object that \<^verbatim>\<open>Database.js\<close> exports the call throws, whatever the
  environment. So \<^verbatim>\<open>createCitationDB\<close> never reaches \<^verbatim>\<open>beginTransaction\<close>,
  the inserts, the commit, the rollback or the release: every call ends in an error and
  leaves the state as it was given.
\<close>

lemma getConnection_connection:
  "getConnection e connection d = Inl (NotAFunction ''connection.getConnection'')"
  by (simp add: getConnection_def connection_def)

lemma createCitationDB_never_returns:
  "\<exists>err. createCitationDB e d cd = (Inl err, d)"
  by (simp add: createCitationDB_def Let_def await_def getConnection_connection
      split: option.splits)

lemma createCitationDB_existing_citizen:
  assumes "checkCitizenExistsDB (committed d) (citizen_id cd)"
    and "faults e CheckCitizenExists = None" and "faults e CountCitations = None"
  shows "createCitationDB e d cd = (Inl (NotAFunction ''connection.getConnection''), d)"
  using assms
  by (simp add: createCitationDB_def Let_def await_def getConnection_connection)

lemma createCitation_never_registers:
  "fst (createCitation e d citizenId body) \<noteq> Registered code newCitation details actions"
proof -
  obtain err where
    "createCitationDB e (d\<lparr> committed := concurrent_writes e CheckCitizenExists (committed d) \<rparr>)
       (body\<lparr> citizen_id := citizenId \<rparr>)
     = (Inl err, d\<lparr> committed := concurrent_writes e CheckCitizenExists (committed d) \<rparr>)"
    using createCitationDB_never_returns by blast
  then show ?thesis
    by (simp add: createCitation_def Let_def await_def error_response_def split: option.splits)
qed

subsection \<open>The sample data, evaluated\<close>

lemma sample_count: "countCitationsByCitizenDB (committed (sample_db 2)) 7 = 2"
  by (simp add: countCitationsByCitizenDB_def sample_db_def sample_citation_def numeral_2_eq_2)

lemma sample_exists: "checkCitizenExistsDB (committed (sample_db k)) 7"
  by (simp add: checkCitizenExistsDB_def sample_db_def sample_citizen_def)

lemma sample_fields:
  "criminal_records (committed (sample_db k)) = []"
  "next_record_id (sample_db k) = 1"
  "citizen_id loud_music = 7"
  "description loud_music = ''loud music after hours''"
  "now quiet = 2000"
  "today quiet = ''2025-08-27''"
  "time_of_day quiet = ''21:40:35''"
  "faults quiet = (\<lambda>c. None)"
  "concurrent_writes quiet = (\<lambda>c t. t)"
  by (simp_all add: sample_db_def loud_music_def quiet_def)

subsection \<open>The transactional phase is out of reach\<close>

text \<open>
  Whether the environment would reject an insert makes no difference: with the insert of
  the criminal record set to reject, the third filing ends in the same \<^verbatim>\<open>TypeError\<close>
  of line 229, not in the error of the insert, and no handle was taken or released.
\<close>

lemma failing_insert_is_not_reached:
  "createCitationDB (failing_at InsertCriminalRecord) (sample_db 2) loud_music =
     (Inl (NotAFunction ''connection.getConnection''), sample_db 2)
   \<and> acquired (sample_db 2) = 0 \<and> released (sample_db 2) = 0"
proof -
  have "createCitationDB (failing_at InsertCriminalRecord) (sample_db 2) loud_music =
          (Inl (NotAFunction ''connection.getConnection''), sample_db 2)"
    by (rule createCitationDB_existing_citizen)
       (simp_all add: sample_fields sample_exists failing_at_def quiet_def)
  then show ?thesis by (simp add: sample_db_def)
qed

subsection \<open>Filing for an existing citizen\<close>

text \<open>
  C2. Filing the third citation of an existing citizen persists nothing: with two
  citations on file and a quiet environment, \<^verbatim>\<open>createCitationDB\<close> throws the
  \<^verbatim>\<open>TypeError\<close> of line 229 and returns the database as it was, with the two
  citations and no criminal record. Neither \<^verbatim>\<open>INSERT\<close> is reached.
\<close>

theorem third_filing_persists_nothing:
  "createCitationDB quiet (sample_db 2) loud_music =
     (Inl (NotAFunction ''connection.getConnection''), sample_db 2)
   \<and> checkCitizenExistsDB (committed (sample_db 2)) 7
   \<and> countCitationsByCitizenDB (committed (sample_db 2)) 7 = 2
   \<and> criminal_records (committed (sample_db 2)) = []"
proof -
  have "createCitationDB quiet (sample_db 2) loud_music =
          (Inl (NotAFunction ''connection.getConnection''), sample_db 2)"
    by (rule createCitationDB_existing_citizen) (simp_all add: sample_fields sample_exists)
  then show ?thesis
    by (simp add: sample_exists sample_count sample_fields)
qed


subsection \<open>A citizen that does not exist\<close>

text \<open>
  C4. For a citizen identifier that is not in the citizens table the call fails and
  leaves the whole state as it was: no handle is taken, no transaction is begun, no row
  is written. The error is the one that says the citizen does not exist; only when the
  existence query itself rejects is it the error of that query.
\<close>

theorem unknown_citizen_rejected:
  assumes "citizen_id cd \<notin> cz_id ` set (citizens (committed d))"
  shows "createCitationDB e d cd =
           (Inl (case faults e CheckCitizenExists of
                   None \<Rightarrow> CitizenDoesNotExist
                 | Some m \<Rightarrow> StorageFailure CheckCitizenExists m), d)"
proof -
  from assms have "filter (\<lambda>c. cz_id c = citizen_id cd) (citizens (committed d)) = []"
    by (force simp: filter_empty_conv image_iff)
  then have "\<not> checkCitizenExistsDB (committed d) (citizen_id cd)"
    by (simp add: checkCitizenExistsDB_def)
  then show ?thesis
    by (simp add: createCitationDB_def await_def split: option.splits)
qed

theorem unknown_citizen_rejected_witness:
  "(8::int) \<notin> cz_id ` set (citizens (committed (sample_db 2)))
   \<and> createCitationDB quiet (sample_db 2)
        \<lparr> citizen_id = 8, description = ''loud music after hours'' \<rparr>
      = (Inl CitizenDoesNotExist, sample_db 2)"
proof -
  have h: "citizen_id \<lparr> citizen_id = 8, description = ''loud music after hours'' \<rparr>
             \<notin> cz_id ` set (citizens (committed (sample_db 2)))"
    by (simp add: sample_db_def sample_citizen_def)
  from unknown_citizen_rejected [OF h, of quiet] h
  show ?thesis by (simp add: sample_fields)
qed

text \<open>The controller answers that error with status 400 and its message.\<close>

lemma unknown_citizen_response:
  "error_response CitizenDoesNotExist = Failed 400 ''El ciudadano especificado no existe'' None"
  by (simp add: error_response_def message_def)

section \<open>Properties of the controller\<close>


end
